theory Spec2Isabelle
  imports Main
begin

section \<open>Requests, failures and collaborators\<close>

text \<open>
  The handlers of \<^verbatim>\<open>apis/post_api.py\<close> and \<^verbatim>\<open>apis/employee_api.py\<close> are
  methods of flask-restx resources. Each one reads the query parameters of the current
  request, reads the identity of the verified JWT, validates what it read, and then calls
  one function of \<^verbatim>\<open>post_service\<close> or \<^verbatim>\<open>employee_service\<close>.

  A handler is modelled by its method body. It runs once the decorators
  \<^verbatim>\<open>jwt_required\<close> / \<^verbatim>\<open>jwt_refresh_token_required\<close> have admitted the request, so a
  request carries the identity of its verified token.

  A query parameter is a Python \<^verbatim>\<open>str\<close>, a sequence of code points. The model takes a
  \<^typ>\<open>char\<close> to be one code point below 256 (Latin-1); \<^typ>\<open>string\<close> is then a
  Python string over these code points.
\<close>

type_synonym identity = string
type_synonym uuid = string

text \<open>The JSON body of a post creation (\<^verbatim>\<open>PostCreateModel\<close>): content and attachments.\<close>

record post_create =
  content :: string
  attachments :: "uuid list"

text \<open>
  \<open>args\<close> is \<^verbatim>\<open>request.args\<close>, a multi-dict in the order of the query string;
  \<open>jwt_identity\<close> is what \<^verbatim>\<open>get_jwt_identity()\<close> returns for the token of the request;
  \<open>payload\<close> is \<^verbatim>\<open>api.payload\<close>.
\<close>

record request =
  args :: "(string \<times> string) list"
  jwt_identity :: identity
  payload :: post_create

text \<open>\<^verbatim>\<open>request.args.get(key, default)\<close>: the first value of the key, or the default.\<close>

definition args_get :: "request \<Rightarrow> string \<Rightarrow> string \<Rightarrow> string" where
  "args_get req key dflt = (case map_of (args req) key of None \<Rightarrow> dflt | Some v \<Rightarrow> v)"

definition get_jwt_identity :: "request \<Rightarrow> identity" where
  "get_jwt_identity req = jwt_identity req"

text \<open>
  \<open>Abort c m\<close> is \<^verbatim>\<open>abort(c, m)\<close>, the HTTP error with status \<open>c\<close> and message \<open>m\<close>.
  \<open>Uncaught n\<close> is a Python exception named \<open>n\<close> that no handler catches.
\<close>

datatype failure = Abort nat string | Uncaught string

text \<open>
  Modelled from the spec: the enum \<^verbatim>\<open>PostStatus\<close> is declared in
  \<^verbatim>\<open>models/post_model.py\<close>, which is not among the sources. Section 3 of the
  specification lists its members; each of them is used by name in \<^verbatim>\<open>post_api.py\<close>.
\<close>

datatype PostStatus =
  under_consideration | posted | returned_for_improvement | rejected | archived

text \<open>\<^verbatim>\<open>PostStatus[name]\<close>: the member of that name; \<open>None\<close> is the \<^verbatim>\<open>KeyError\<close>.\<close>

definition PostStatus_getitem :: "string \<Rightarrow> PostStatus option" where
  "PostStatus_getitem name =
     (if name = ''under_consideration'' then Some under_consideration
      else if name = ''posted'' then Some posted
      else if name = ''returned_for_improvement'' then Some returned_for_improvement
      else if name = ''rejected'' then Some rejected
      else if name = ''archived'' then Some archived
      else None)"

definition PostStatus_name :: "PostStatus \<Rightarrow> string" where
  "PostStatus_name s =
     (case s of
        under_consideration \<Rightarrow> ''under_consideration''
      | posted \<Rightarrow> ''posted''
      | returned_for_improvement \<Rightarrow> ''returned_for_improvement''
      | rejected \<Rightarrow> ''rejected''
      | archived \<Rightarrow> ''archived'')"

text \<open>
  The enum \<^verbatim>\<open>EmployeeType\<close> is declared in \<^verbatim>\<open>models/employee_model.py\<close>, which is
  not among the sources. A member is identified by its value; which values the enum has is
  a parameter of the model (\<open>employee_type_values\<close> below).
\<close>

datatype EmployeeType = EmployeeType_member string

text \<open>The calls a handler makes to \<^verbatim>\<open>post_service\<close> and \<^verbatim>\<open>employee_service\<close>.\<close>

datatype call =
    Create_post identity post_create
  | Set_post_status identity uuid PostStatus
  | Get_archived_posts int
  | Get_all_employee_posts uuid
  | Get_statistics int int int int "uuid list option"
  | Get_all_posts identity int "PostStatus set" bool
  | Get_fired_moderators uuid "EmployeeType set"

text \<open>\<^verbatim>\<open>get_uuid\<close> is called with the request (it reads the parameter \<^verbatim>\<open>id\<close>) or with a string.\<close>

datatype uuid_source = Of_request request | Of_string string

text \<open>
  The collaborators that are not among the sources, as parameters of the model:
  \<^item> \<open>service\<close>: what the called service function returns or raises; \<open>'r\<close> is the type
    of the values that services return;
  \<^item> \<open>get_uuid\<close>, \<open>get_page\<close>: the helpers of \<^verbatim>\<open>services/__init__.py\<close>, which return a
    value or abort;
  \<^item> \<open>create_access_token\<close>, \<open>create_refresh_token\<close>: the token constructors of
    flask-jwt-extended;
  \<^item> \<open>set_iteration\<close>: the order in which Python iterates over a set built from a list;
  \<^item> \<open>employee_type_values\<close>: the values of the members of \<^verbatim>\<open>EmployeeType\<close>.
\<close>

record 'r env =
  service :: "call \<Rightarrow> failure + 'r"
  get_uuid :: "uuid_source \<Rightarrow> failure + uuid"
  get_page :: "request \<Rightarrow> failure + int"
  create_access_token :: "identity \<Rightarrow> string"
  create_refresh_token :: "identity \<Rightarrow> string"
  set_iteration :: "string list \<Rightarrow> string list"
  employee_type_values :: "string list"

text \<open>The models of \<^verbatim>\<open>api.marshal_with\<close> that the handlers below name.\<close>

datatype model = full_post | counted_posts_list | token | full_employee

text \<open>
  What a handler returns: a service result, or the dictionary of \<^verbatim>\<open>AuthRefresh.post\<close>.
\<close>

datatype 'r body =
    Returned 'r
  | Token_pair (access_token: string) (refresh_token: string) (user_id: identity)

text \<open>
  A response: the body, the status code, and the model and \<^verbatim>\<open>as_list\<close> flag of
  \<^verbatim>\<open>marshal_with\<close> (\<open>None\<close> when the handler has no such decorator).
\<close>

record 'r response =
  body :: "'r body"
  code :: nat
  marshal_with :: "(model \<times> bool) option"

text \<open>
  The outcome of a handler: the service calls it made, in order, and the response or the
  failure that ended it.
\<close>

type_synonym 'r outcome = "call list \<times> (failure + 'r response)"

definition invoke :: "'r env \<Rightarrow> call \<Rightarrow> call list \<times> (failure + 'r)" where
  "invoke env c = ([c], service env c)"

text \<open>\<^verbatim>\<open>return value, code\<close> under \<^verbatim>\<open>marshal_with\<close>.\<close>

definition reply ::
  "(model \<times> bool) option \<Rightarrow> nat \<Rightarrow> call list \<times> (failure + 'r) \<Rightarrow> 'r outcome" where
  "reply m c out =
     (case out of
        (cs, Inl e) \<Rightarrow> (cs, Inl e)
      | (cs, Inr v) \<Rightarrow> (cs, Inr \<lparr>body = Returned v, code = c, marshal_with = m\<rparr>))"

section \<open>Status transitions: \<^verbatim>\<open>/post/approve\<close>, \<^verbatim>\<open>/return\<close>, \<^verbatim>\<open>/reject\<close>, \<^verbatim>\<open>/archive\<close>\<close>

text \<open>
  Every handler of this section ends with
  \<^verbatim>\<open>return post_service.set_post_status(get_jwt_identity(), get_uuid(request), S), 201\<close>.
  The arguments are evaluated before the call, so an abort of \<^verbatim>\<open>get_uuid\<close> ends the
  handler with no service call.
\<close>

text \<open>\<^verbatim>\<open>POST /post/approve\<close>\<close>

definition ApprovePost_post :: "'r env \<Rightarrow> request \<Rightarrow> 'r outcome" where
  "ApprovePost_post env req =
     (case get_uuid env (Of_request req) of
        Inl e \<Rightarrow> ([], Inl e)
      | Inr pid \<Rightarrow>
          reply (Some (full_post, False)) 201
            (invoke env (Set_post_status (get_jwt_identity req) pid posted)))"

text \<open>\<^verbatim>\<open>DELETE /post/approve\<close>\<close>

definition ApprovePost_delete :: "'r env \<Rightarrow> request \<Rightarrow> 'r outcome" where
  "ApprovePost_delete env req =
     (case get_uuid env (Of_request req) of
        Inl e \<Rightarrow> ([], Inl e)
      | Inr pid \<Rightarrow>
          reply (Some (full_post, False)) 201
            (invoke env (Set_post_status (get_jwt_identity req) pid under_consideration)))"

text \<open>\<^verbatim>\<open>POST /post/return\<close> (the class at this route is named \<^verbatim>\<open>ApprovePost\<close> too).\<close>

definition ApprovePost_return_post :: "'r env \<Rightarrow> request \<Rightarrow> 'r outcome" where
  "ApprovePost_return_post env req =
     (case get_uuid env (Of_request req) of
        Inl e \<Rightarrow> ([], Inl e)
      | Inr pid \<Rightarrow>
          reply (Some (full_post, False)) 201
            (invoke env (Set_post_status (get_jwt_identity req) pid returned_for_improvement)))"

text \<open>\<^verbatim>\<open>POST /post/reject\<close> (again a class named \<^verbatim>\<open>ApprovePost\<close>).\<close>

definition ApprovePost_reject_post :: "'r env \<Rightarrow> request \<Rightarrow> 'r outcome" where
  "ApprovePost_reject_post env req =
     (case get_uuid env (Of_request req) of
        Inl e \<Rightarrow> ([], Inl e)
      | Inr pid \<Rightarrow>
          reply (Some (full_post, False)) 201
            (invoke env (Set_post_status (get_jwt_identity req) pid rejected)))"

text \<open>\<^verbatim>\<open>POST /post/archive\<close>\<close>

definition ArchivePost_post :: "'r env \<Rightarrow> request \<Rightarrow> 'r outcome" where
  "ArchivePost_post env req =
     (case get_uuid env (Of_request req) of
        Inl e \<Rightarrow> ([], Inl e)
      | Inr pid \<Rightarrow>
          reply (Some (full_post, False)) 201
            (invoke env (Set_post_status (get_jwt_identity req) pid archived)))"

text \<open>
  \<^verbatim>\<open>DELETE /post/archive\<close>: the target status is looked up by name; a name that is
  no member, and the member \<^verbatim>\<open>archived\<close>, raise \<^verbatim>\<open>KeyError\<close>, which the handler turns
  into \<^verbatim>\<open>abort(400, "Incorrect status value")\<close>.
\<close>

definition ArchivePost_delete :: "'r env \<Rightarrow> request \<Rightarrow> 'r outcome" where
  "ArchivePost_delete env req =
     (case PostStatus_getitem (args_get req ''status'' []) of
        None \<Rightarrow> ([], Inl (Abort 400 ''Incorrect status value''))
      | Some new_status \<Rightarrow>
          if new_status = archived then ([], Inl (Abort 400 ''Incorrect status value''))
          else
            (case get_uuid env (Of_request req) of
               Inl e \<Rightarrow> ([], Inl e)
             | Inr pid \<Rightarrow>
                 reply (Some (full_post, False)) 201
                   (invoke env (Set_post_status (get_jwt_identity req) pid new_status))))"

section \<open>Creation and listings\<close>

text \<open>\<^verbatim>\<open>POST /post\<close>: \<^verbatim>\<open>post_service.create_post(get_jwt_identity(), **api.payload), 201\<close>.\<close>

definition Post_post :: "'r env \<Rightarrow> request \<Rightarrow> 'r outcome" where
  "Post_post env req =
     reply (Some (full_post, False)) 201
       (invoke env (Create_post (get_jwt_identity req) (payload req)))"

text \<open>\<^verbatim>\<open>GET /post/archive\<close>: \<^verbatim>\<open>post_service.get_archived_posts(get_page(request)), 200\<close>.\<close>

definition ArchivePost_get :: "'r env \<Rightarrow> request \<Rightarrow> 'r outcome" where
  "ArchivePost_get env req =
     (case get_page env req of
        Inl e \<Rightarrow> ([], Inl e)
      | Inr page \<Rightarrow>
          reply (Some (counted_posts_list, False)) 200 (invoke env (Get_archived_posts page)))"

text \<open>
  \<^verbatim>\<open>GET /post/of_employee\<close> (a second class named \<^verbatim>\<open>Post\<close>):
  \<^verbatim>\<open>post_service.get_all_employee_posts(get_uuid(request)), 200\<close>, marshalled with
  \<^verbatim>\<open>full_post\<close> and \<^verbatim>\<open>as_list=True\<close>.
\<close>

definition Post_of_employee_get :: "'r env \<Rightarrow> request \<Rightarrow> 'r outcome" where
  "Post_of_employee_get env req =
     (case get_uuid env (Of_request req) of
        Inl e \<Rightarrow> ([], Inl e)
      | Inr employee_id \<Rightarrow>
          reply (Some (full_post, True)) 200 (invoke env (Get_all_employee_posts employee_id)))"

section \<open>Query parameters that hold a set\<close>

text \<open>\<^verbatim>\<open>s.split(',')\<close>: the pieces between commas; the empty string has one empty piece.\<close>

fun split_commas :: "string \<Rightarrow> string list" where
  "split_commas [] = [[]]"
| "split_commas (c # cs) =
     (if c = CHR '','' then [] # split_commas cs
      else (case split_commas cs of
              [] \<Rightarrow> [[c]]
            | w # ws \<Rightarrow> (c # w) # ws))"

text \<open>
  \<^verbatim>\<open>set(xs)\<close>, as the list of its elements in iteration order. Python fixes no order for
  a set of strings, so the order is the one the environment gives, whenever that is an
  enumeration of the elements without repetition (and the order of first occurrence
  otherwise).
\<close>

definition py_set :: "'r env \<Rightarrow> string list \<Rightarrow> string list" where
  "py_set env xs =
     (let ys = set_iteration env xs
      in if distinct ys \<and> set ys = set xs then ys else remdups xs)"

text \<open>
  Modelled from the spec: \<^verbatim>\<open>query_param_to_set\<close> is defined in \<^verbatim>\<open>models/__init__.py\<close>,
  which is not among the sources. The specification calls its result a caller-supplied set;
  the parameter descriptions of its callers say "separated by commas", and the callers guard
  against empty elements. So it is the set of the pieces of the named query parameter
  between commas, where an absent parameter is the empty string.
\<close>

definition query_param_to_set :: "'r env \<Rightarrow> string \<Rightarrow> request \<Rightarrow> string list" where
  "query_param_to_set env name req = py_set env (split_commas (args_get req name []))"

section \<open>\<^verbatim>\<open>GET /post/moderation\<close>\<close>

text \<open>
  The loop over \<^verbatim>\<open>statuses_raw\<close>: an empty element is skipped, a name of a status is added
  to \<^verbatim>\<open>statuses\<close>, any other element aborts with 422 and the message
  \<^verbatim>\<open>f"Incorrect status value '{status}'"\<close>.
\<close>

definition incorrect_status_value :: "string \<Rightarrow> string" where
  "incorrect_status_value status = ''Incorrect status value '' @ [CHR 0x27] @ status @ [CHR 0x27]"

fun parse_statuses :: "string list \<Rightarrow> PostStatus set \<Rightarrow> failure + PostStatus set" where
  "parse_statuses [] statuses = Inr statuses"
| "parse_statuses (status # rest) statuses =
     (if status \<noteq> [] then
        (case PostStatus_getitem status of
           Some s \<Rightarrow> parse_statuses rest (insert s statuses)
         | None \<Rightarrow>
             Inl (Abort 422 (incorrect_status_value status)))
      else parse_statuses rest statuses)"

definition PostModeration_get :: "'r env \<Rightarrow> request \<Rightarrow> 'r outcome" where
  "PostModeration_get env req =
     (case parse_statuses (query_param_to_set env ''statuses'' req) {} of
        Inl e \<Rightarrow> ([], Inl e)
      | Inr statuses \<Rightarrow>
          (case get_page env req of
             Inl e \<Rightarrow> ([], Inl e)
           | Inr page \<Rightarrow>
               reply (Some (counted_posts_list, False)) 200
                 (invoke env
                    (Get_all_posts (get_jwt_identity req) page statuses
                       (args_get req ''reverse'' ''true'' = ''true'')))))"

section \<open>\<^verbatim>\<open>GET /employee/fired\<close>\<close>

text \<open>
  \<^verbatim>\<open>EmployeeType(value)\<close>: the member with that value; \<open>None\<close> is the \<^verbatim>\<open>ValueError\<close>.
\<close>

definition EmployeeType_of_value :: "'r env \<Rightarrow> string \<Rightarrow> EmployeeType option" where
  "EmployeeType_of_value env v =
     (if v \<in> set (employee_type_values env) then Some (EmployeeType_member v) else None)"

text \<open>
  The loop over \<^verbatim>\<open>types_raw\<close>: every element is converted; the first one that is no value
  of the enum aborts with 400 and the message \<^verbatim>\<open>f"Incorrect employee type '{employee_type}'"\<close>.
\<close>

definition incorrect_employee_type :: "string \<Rightarrow> string" where
  "incorrect_employee_type employee_type =
     ''Incorrect employee type '' @ [CHR 0x27] @ employee_type @ [CHR 0x27]"

fun parse_types ::
  "'r env \<Rightarrow> string list \<Rightarrow> EmployeeType set \<Rightarrow> failure + EmployeeType set" where
  "parse_types env [] types = Inr types"
| "parse_types env (employee_type # rest) types =
     (case EmployeeType_of_value env employee_type of
        Some t \<Rightarrow> parse_types env rest (insert t types)
      | None \<Rightarrow>
          Inl (Abort 400 (incorrect_employee_type employee_type)))"

text \<open>The class at \<^verbatim>\<open>/employee/fired\<close> is named \<^verbatim>\<open>AuthRefresh\<close> in the source.\<close>

definition AuthRefresh_fired_get :: "'r env \<Rightarrow> request \<Rightarrow> 'r outcome" where
  "AuthRefresh_fired_get env req =
     (case parse_types env (query_param_to_set env ''types'' req) {} of
        Inl e \<Rightarrow> ([], Inl e)
      | Inr types \<Rightarrow>
          (case get_uuid env (Of_request req) of
             Inl e \<Rightarrow> ([], Inl e)
           | Inr subunit_id \<Rightarrow>
               reply (Some (full_employee, True)) 200
                 (invoke env (Get_fired_moderators subunit_id types))))"

section \<open>\<^verbatim>\<open>POST /employee/auth/refresh\<close>\<close>

definition AuthRefresh_post :: "'r env \<Rightarrow> request \<Rightarrow> 'r outcome" where
  "AuthRefresh_post env req =
     (let identity = get_jwt_identity req
      in ([], Inr \<lparr>body = Token_pair (create_access_token env identity)
                             (create_refresh_token env identity) identity,
                   code = 200,
                   marshal_with = Some (token, False)\<rparr>))"

section \<open>\<^verbatim>\<open>GET /post/statistics\<close>\<close>

text \<open>
  \<^verbatim>\<open>str.isdigit()\<close>: the string is not empty and every character has the Unicode property
  Numeric_Type=Digit or Numeric_Type=Decimal. Below 256 these are the decimal digits
  \<^verbatim>\<open>0\<close> to \<^verbatim>\<open>9\<close> and the superscripts two (\<^verbatim>\<open>U+00B2\<close>), three (\<^verbatim>\<open>U+00B3\<close>) and
  one (\<^verbatim>\<open>U+00B9\<close>).
\<close>

definition is_decimal_char :: "char \<Rightarrow> bool" where
  "is_decimal_char c = (48 \<le> (of_char c :: nat) \<and> (of_char c :: nat) \<le> 57)"

definition isdigit_char :: "char \<Rightarrow> bool" where
  "isdigit_char c =
     (is_decimal_char c \<or> c = CHR 0xB2 \<or> c = CHR 0xB3 \<or> c = CHR 0xB9)"

definition isdigit :: "string \<Rightarrow> bool" where
  "isdigit s = (s \<noteq> [] \<and> list_all isdigit_char s)"

text \<open>
  \<^verbatim>\<open>int(s)\<close> for a string that passed \<^verbatim>\<open>isdigit\<close> (the handler calls it on no other):
  the number in base ten when every character is a decimal digit and there are at most
  4300 of them; \<open>None\<close> is the \<^verbatim>\<open>ValueError\<close> that \<^verbatim>\<open>int\<close> raises on a superscript
  digit, and on more than 4300 digits (the default of \<^verbatim>\<open>sys.int_info.default_max_str_digits\<close>
  in CPython 3.11; leading zeros count).
\<close>

definition int_str :: "string \<Rightarrow> int option" where
  "int_str s =
     (if s \<noteq> [] \<and> list_all is_decimal_char s \<and> length s \<le> 4300
      then Some (foldl (\<lambda>acc c. 10 * acc + (of_char c - 48)) 0 s)
      else None)"

text \<open>\<^verbatim>\<open>[get_uuid(e_id) for e_id in ids_raw]\<close>: the first abort ends the comprehension.\<close>

fun get_uuids :: "'r env \<Rightarrow> string list \<Rightarrow> failure + uuid list" where
  "get_uuids env [] = Inr []"
| "get_uuids env (e_id # rest) =
     (case get_uuid env (Of_string e_id) of
        Inl e \<Rightarrow> Inl e
      | Inr u \<Rightarrow>
          (case get_uuids env rest of
             Inl e \<Rightarrow> Inl e
           | Inr us \<Rightarrow> Inr (u # us)))"

text \<open>
  The keyword argument \<^verbatim>\<open>subunit_ids\<close>: the list of the IDs when \<^verbatim>\<open>ids_raw\<close> is not
  empty and has no empty element, \<^verbatim>\<open>None\<close> otherwise.
\<close>

definition subunit_ids :: "'r env \<Rightarrow> string list \<Rightarrow> failure + uuid list option" where
  "subunit_ids env ids_raw =
     (if ids_raw \<noteq> [] \<and> list_all (\<lambda>e_id. e_id \<noteq> []) ids_raw
      then (case get_uuids env ids_raw of Inl e \<Rightarrow> Inl e | Inr us \<Rightarrow> Inr (Some us))
      else Inr None)"

text \<open>
  The handler. After the check of the four date parameters the call is
  \<^verbatim>\<open>get_statistics(*(int(param) for param in (...)), subunit_ids=...)\<close>: CPython evaluates
  the keyword argument first and runs the generator of the \<^verbatim>\<open>int\<close> conversions when it
  builds the positional arguments of the call. The handler has no \<^verbatim>\<open>marshal_with\<close>.
\<close>

definition PostStat_get :: "'r env \<Rightarrow> request \<Rightarrow> 'r outcome" where
  "PostStat_get env req =
     (let start_year = args_get req ''start_year'' [];
          start_month = args_get req ''start_month'' [];
          end_year = args_get req ''end_year'' [];
          end_month = args_get req ''end_month'' [];
          ids_raw = query_param_to_set env ''ids'' req
      in if \<not> list_all isdigit [start_year, start_month, end_year, end_month]
         then ([], Inl (Abort 400 ''Date values must be integers''))
         else
           (case subunit_ids env ids_raw of
              Inl e \<Rightarrow> ([], Inl e)
            | Inr ids \<Rightarrow>
                (case (int_str start_year, int_str start_month,
                       int_str end_year, int_str end_month) of
                   (Some sy, Some sm, Some ey, Some em) \<Rightarrow>
                     reply None 200 (invoke env (Get_statistics sy sm ey em ids))
                 | _ \<Rightarrow> ([], Inl (Uncaught ''ValueError'')))))"

section \<open>Stating what a handler asks of the services\<close>

text \<open>
  \<open>requests_status env req S out\<close>: the outcome \<open>out\<close> is that of one call of
  \<^verbatim>\<open>set_post_status\<close> with the identity of the caller, the post ID that \<^verbatim>\<open>get_uuid\<close>
  reads from the request, and the target status \<open>S\<close>, answered with code 201; when
  \<^verbatim>\<open>get_uuid\<close> aborts, no call is made and its failure is the outcome.
\<close>

definition requests_status :: "'r env \<Rightarrow> request \<Rightarrow> PostStatus \<Rightarrow> 'r outcome \<Rightarrow> bool" where
  "requests_status env req S out =
     (case get_uuid env (Of_request req) of
        Inl e \<Rightarrow> out = ([], Inl e)
      | Inr pid \<Rightarrow>
          fst out = [Set_post_status (jwt_identity req) pid S] \<and>
          snd out =
            (case service env (Set_post_status (jwt_identity req) pid S) of
               Inl e \<Rightarrow> Inl e
             | Inr v \<Rightarrow>
                 Inr \<lparr>body = Returned v, code = 201, marshal_with = Some (full_post, False)\<rparr>))"

text \<open>
  \<open>supplied req name\<close>: the elements of the set that \<^verbatim>\<open>query_param_to_set(name)\<close>
  returns, whatever the order of iteration.
\<close>

definition supplied :: "request \<Rightarrow> string \<Rightarrow> string set" where
  "supplied req name = set (split_commas (args_get req name []))"

text \<open>
  \<open>answered env c m k\<close>: the outcome of exactly one service call \<open>c\<close>, whose result is
  returned with code \<open>k\<close> under the marshalling \<open>m\<close> and whose failure is passed on.
\<close>

definition answered ::
  "'r env \<Rightarrow> call \<Rightarrow> (model \<times> bool) option \<Rightarrow> nat \<Rightarrow> 'r outcome" where
  "answered env c m k =
     ([c], case service env c of
             Inl e \<Rightarrow> Inl e
           | Inr v \<Rightarrow> Inr \<lparr>body = Returned v, code = k, marshal_with = m\<rparr>)"

text \<open>The page number that a service call carries.\<close>

fun call_page :: "call \<Rightarrow> int option" where
  "call_page (Get_archived_posts page) = Some page"
| "call_page (Get_all_posts who page statuses reverse) = Some page"
| "call_page c = None"

text \<open>
  \<open>paginated env req out\<close>: when the outcome is a response, the handler made one call,
  which carries the page number that \<^verbatim>\<open>get_page\<close> read from the request, and the
  response is marshalled with \<^verbatim>\<open>counted_posts_list\<close> (the posts and \<^verbatim>\<open>pages_count\<close>).
\<close>

definition paginated :: "'r env \<Rightarrow> request \<Rightarrow> 'r outcome \<Rightarrow> bool" where
  "paginated env req out =
     (case snd out of
        Inl e \<Rightarrow> True
      | Inr r \<Rightarrow>
          (case get_page env req of
             Inl e \<Rightarrow> False
           | Inr page \<Rightarrow>
               map call_page (fst out) = [Some page] \<and>
               marshal_with r = Some (counted_posts_list, False)))"

section \<open>The post service of the specification\<close>

text \<open>
  Modelled from the spec: \<^verbatim>\<open>post_service\<close> (\<^verbatim>\<open>services/post_service.py\<close>) and the
  storage behind it are not among the sources. Section 3 of the specification gives a post
  its ID, author, content, attachments, status and dates, and places it in the subunit of
  its author. The store holds the posts, the IDs of the attachments that exist, the
  subunits (ID and name), the subunit of every employee, the ID of the next post and the
  current year and month.
\<close>

record post =
  post_id :: uuid
  author :: identity
  post_content :: string
  post_attachments :: "uuid list"
  status :: PostStatus
  created :: "int \<times> int"

record store =
  posts :: "post list"
  attachment_ids :: "uuid list"
  subunits :: "(uuid \<times> string) list"
  employee_subunit :: "(identity \<times> uuid) list"
  fresh_id :: uuid
  today :: "int \<times> int"

text \<open>
  Modelled from the spec: \<^verbatim>\<open>post_service.create_post\<close> is not among the sources.
  Section 4.3: creation always starts a post in \<open>under_consideration\<close> and fails with
  \<open>NotFound\<close> (404, "Attachment not found" in the handler's documentation) if a referenced
  attachment does not exist.
\<close>

definition create_post :: "store \<Rightarrow> identity \<Rightarrow> post_create \<Rightarrow> failure + post \<times> store" where
  "create_post st who draft =
     (if \<not> list_all (\<lambda>a. a \<in> set (attachment_ids st)) (attachments draft)
      then Inl (Abort 404 ''Attachment not found'')
      else
        (let p = \<lparr>post_id = fresh_id st, author = who, post_content = content draft,
                  post_attachments = attachments draft, status = under_consideration,
                  created = today st\<rparr>
         in Inr (p, st\<lparr>posts := posts st @ [p]\<rparr>)))"

text \<open>
  Modelled from the spec: \<^verbatim>\<open>post_service.get_statistics\<close> is not among the sources.
  Section 4.4: it fails with \<open>InvalidInput\<close> (422, "Invalid date given" in the handler's
  documentation) if the end date precedes the start date or either month is outside 1 to 12;
  otherwise it maps the name of every selected subunit to the count of its posts in each
  year-month of the inclusive range, a month without posts having the count 0 (section 8);
  the subunit filter restricts to the given set and defaults to all subunits.
\<close>

definition valid_month :: "int \<Rightarrow> bool" where
  "valid_month m = (1 \<le> m \<and> m \<le> 12)"

definition precedes :: "int \<times> int \<Rightarrow> int \<times> int \<Rightarrow> bool" where
  "precedes a b = (fst a < fst b \<or> (fst a = fst b \<and> snd a < snd b))"

definition month_index :: "int \<times> int \<Rightarrow> int" where
  "month_index ym = fst ym * 12 + (snd ym - 1)"

definition months_between :: "int \<times> int \<Rightarrow> int \<times> int \<Rightarrow> (int \<times> int) list" where
  "months_between start finish =
     map (\<lambda>k. (k div 12, k mod 12 + 1)) [month_index start .. month_index finish]"

definition count_posts :: "store \<Rightarrow> uuid \<Rightarrow> int \<times> int \<Rightarrow> nat" where
  "count_posts st subunit_id ym =
     length (filter (\<lambda>p. map_of (employee_subunit st) (author p) = Some subunit_id \<and>
                          created p = ym) (posts st))"

definition selected_subunits :: "store \<Rightarrow> uuid list option \<Rightarrow> (uuid \<times> string) list" where
  "selected_subunits st ids =
     (case ids of
        None \<Rightarrow> subunits st
      | Some us \<Rightarrow> filter (\<lambda>su. fst su \<in> set us) (subunits st))"

definition get_statistics ::
  "store \<Rightarrow> int \<Rightarrow> int \<Rightarrow> int \<Rightarrow> int \<Rightarrow> uuid list option
     \<Rightarrow> failure + (string \<times> ((int \<times> int) \<times> nat) list) list" where
  "get_statistics st start_year start_month end_year end_month ids =
     (if precedes (end_year, end_month) (start_year, start_month)
         \<or> \<not> valid_month start_month \<or> \<not> valid_month end_month
      then Inl (Abort 422 ''Invalid date given'')
      else Inr (map (\<lambda>su. (snd su,
                            map (\<lambda>ym. (ym, count_posts st (fst su) ym))
                              (months_between (start_year, start_month) (end_year, end_month))))
                  (selected_subunits st ids)))"

text \<open>
  Modelled from the spec: the listing functions of \<^verbatim>\<open>post_service\<close>
  (\<^verbatim>\<open>get_archived_posts\<close>, \<^verbatim>\<open>get_all_posts\<close>, \<^verbatim>\<open>get_all_employee_posts\<close>) are not
  among the sources. Section 4.3: the listing operations are read-only and return paginated,
  optionally reverse-chronological results; the moderation listing filters by the supplied
  set of statuses and requires moderator or admin privilege (403 "Have no privileges to
  moderate posts" in the handler's documentation). The listing of an employee's posts has no
  page in the handler; it returns all posts of the employee and fails with 404 "Employee not
  found" (the handler's documentation) for an unknown employee.

  For the listings the store also holds the number of posts on a page and the employees
  with moderator or admin privilege. The posts of the store are in chronological order
  (creation appends). Pages are counted from 1; a page holds \<open>page_size\<close> posts, the last
  one the rest; a page number outside the pages gives no posts.
\<close>

record listing_store = store +
  page_size :: nat
  privileged :: "identity list"

definition posts_of_page :: "nat \<Rightarrow> int \<Rightarrow> 'a list \<Rightarrow> 'a list" where
  "posts_of_page n page xs =
     (if page < 1 then [] else take n (drop (nat (page - 1) * n) xs))"

definition number_of_pages :: "nat \<Rightarrow> 'a list \<Rightarrow> nat" where
  "number_of_pages n xs = (length xs + n - 1) div n"

text \<open>
  What a listing returns: the posts of one page with the page count, or all posts of an
  employee; \<open>Unlisted\<close> holds the result of any other service function.
\<close>

datatype 'r listed =
    Page_of_posts "post list" nat
  | All_posts "post list"
  | Unlisted 'r

text \<open>Every listing function returns its result and the store after it.\<close>

definition get_archived_posts ::
  "listing_store \<Rightarrow> int \<Rightarrow> (failure + 'r listed) \<times> listing_store" where
  "get_archived_posts st page =
     (let found = filter (\<lambda>p. status p = archived) (posts st)
      in (Inr (Page_of_posts (posts_of_page (page_size st) page found)
                 (number_of_pages (page_size st) found)), st))"

definition get_all_posts ::
  "listing_store \<Rightarrow> identity \<Rightarrow> int \<Rightarrow> PostStatus set \<Rightarrow> bool
     \<Rightarrow> (failure + 'r listed) \<times> listing_store" where
  "get_all_posts st who page statuses reverse =
     (if who \<notin> set (privileged st)
      then (Inl (Abort 403 ''Have no privileges to moderate posts''), st)
      else
        (let found = filter (\<lambda>p. status p \<in> statuses) (posts st);
             ordered = (if reverse then rev found else found)
         in (Inr (Page_of_posts (posts_of_page (page_size st) page ordered)
                    (number_of_pages (page_size st) ordered)), st)))"

definition get_all_employee_posts ::
  "listing_store \<Rightarrow> uuid \<Rightarrow> (failure + 'r listed) \<times> listing_store" where
  "get_all_employee_posts st employee_id =
     (if employee_id \<notin> fst ` set (employee_subunit st)
      then (Inl (Abort 404 ''Employee not found''), st)
      else (Inr (All_posts (filter (\<lambda>p. author p = employee_id) (posts st))), st))"

text \<open>
  An environment whose listing calls are answered by the listing functions above on the
  store \<open>st\<close>; every other call and every helper is that of \<open>env\<close>.
\<close>

definition with_listings :: "listing_store \<Rightarrow> 'r env \<Rightarrow> 'r listed env" where
  "with_listings st env =
     \<lparr>service = (\<lambda>c. case c of
          Get_archived_posts page \<Rightarrow> fst (get_archived_posts st page)
        | Get_all_posts who page statuses reverse \<Rightarrow>
            fst (get_all_posts st who page statuses reverse)
        | Get_all_employee_posts employee_id \<Rightarrow> fst (get_all_employee_posts st employee_id)
        | _ \<Rightarrow> (case service env c of Inl e \<Rightarrow> Inl e | Inr v \<Rightarrow> Inr (Unlisted v))),
      get_uuid = get_uuid env,
      get_page = get_page env,
      create_access_token = create_access_token env,
      create_refresh_token = create_refresh_token env,
      set_iteration = set_iteration env,
      employee_type_values = employee_type_values env\<rparr>"

text \<open>
  A store to evaluate the listings in: five archived posts of \<^verbatim>\<open>e1\<close> and one posted
  post of \<^verbatim>\<open>e2\<close>, two posts on a page, \<^verbatim>\<open>e1\<close> privileged.
\<close>

definition example_archived_post :: "nat \<Rightarrow> post" where
  "example_archived_post i =
     \<lparr>post_id = ''a'' @ [char_of (48 + i)], author = ''e1'', post_content = ''x'',
      post_attachments = [], status = archived, created = (2020, 11)\<rparr>"

definition example_posted_post :: post where
  "example_posted_post =
     \<lparr>post_id = ''b0'', author = ''e2'', post_content = ''y'', post_attachments = [],
      status = posted, created = (2021, 1)\<rparr>"

definition example_listing_store :: listing_store where
  "example_listing_store =
     \<lparr>posts = map example_archived_post [0 ..< 5] @ [example_posted_post],
      attachment_ids = [],
      subunits = [(''s1'', ''IT department'')],
      employee_subunit = [(''e1'', ''s1''), (''e2'', ''s1'')],
      fresh_id = ''b1'',
      today = (2021, 2),
      page_size = 2,
      privileged = [''e1'']\<rparr>"

text \<open>
  A store to evaluate the services in: two subunits; the first has ten posts in November
  2020 and none in December 2020 (the example of section 8), the second one post in
  January 2021; one attachment exists.
\<close>

definition example_store :: store where
  "example_store =
     \<lparr>posts =
        map (\<lambda>i. \<lparr>post_id = ''p'' @ [char_of (48 + i)], author = ''e1'', post_content = ''a'',
                    post_attachments = [], status = posted, created = (2020, 11)\<rparr>)
          [0 ..< 10] @
        [\<lparr>post_id = ''q0'', author = ''e2'', post_content = ''c'', post_attachments = [''a1''],
          status = under_consideration, created = (2021, 1)\<rparr>],
      attachment_ids = [''a1''],
      subunits = [(''s1'', ''IT department''), (''s2'', ''Marketing department'')],
      employee_subunit = [(''e1'', ''s1''), (''e2'', ''s2'')],
      fresh_id = ''q1'',
      today = (2021, 2)\<rparr>"

text \<open>
  An environment to evaluate handlers in: every service call returns its own description,
  \<^verbatim>\<open>get_uuid\<close> returns the parameter \<^verbatim>\<open>id\<close> (or the string it is given) and aborts
  when there is none, \<^verbatim>\<open>get_page\<close> accepts the pages \<^verbatim>\<open>1\<close> and \<^verbatim>\<open>2\<close>, and a set
  is iterated in reverse order of first occurrence.
\<close>

definition example_env :: "call env" where
  "example_env =
     \<lparr>service = (\<lambda>c. Inr c),
      get_uuid = (\<lambda>src. case src of
                     Of_request r \<Rightarrow>
                       (case map_of (args r) ''id'' of
                          None \<Rightarrow> Inl (Abort 400 ''no id'')
                        | Some v \<Rightarrow> Inr v)
                   | Of_string s \<Rightarrow> Inr s),
      get_page = (\<lambda>r. if args_get r ''page'' [] = ''1'' then Inr 1
                       else if args_get r ''page'' [] = ''2'' then Inr 2
                       else Inl (Abort 400 ''no page'')),
      create_access_token = (\<lambda>i. ''access:'' @ i),
      create_refresh_token = (\<lambda>i. ''refresh:'' @ i),
      set_iteration = (\<lambda>xs. rev (remdups xs)),
      employee_type_values = [''admin'', ''moderator'', ''user'']\<rparr>"

definition example_request :: "(string \<times> string) list \<Rightarrow> request" where
  "example_request qs =
     \<lparr>args = qs, jwt_identity = ''e1'', payload = \<lparr>content = ''news'', attachments = []\<rparr>\<rparr>"

section \<open>Properties of the status transitions\<close>

lemma PostStatus_getitem_name: "PostStatus_getitem (PostStatus_name S) = Some S"
  by (cases S) (simp_all add: PostStatus_getitem_def PostStatus_name_def)

lemma PostStatus_getitem_Some: "PostStatus_getitem s = Some S \<Longrightarrow> s = PostStatus_name S"
  by (auto simp: PostStatus_getitem_def PostStatus_name_def split: if_splits)

lemma PostStatus_getitem_None: "(PostStatus_getitem s = None) = (\<forall>S. s \<noteq> PostStatus_name S)"
proof
  assume "PostStatus_getitem s = None"
  then show "\<forall>S. s \<noteq> PostStatus_name S"
    using PostStatus_getitem_name by fastforce
next
  assume no_name: "\<forall>S. s \<noteq> PostStatus_name S"
  show "PostStatus_getitem s = None"
  proof (cases "PostStatus_getitem s")
    case None
    then show ?thesis .
  next
    case (Some S)
    then show ?thesis
      using no_name PostStatus_getitem_Some by blast
  qed
qed

text \<open>
  C2: each moderation action asks for its fixed target status. For every request and
  every environment, approve asks \<^verbatim>\<open>set_post_status\<close> for \<open>posted\<close>, disapprove for
  \<open>under_consideration\<close>, return for \<open>returned_for_improvement\<close>, reject for
  \<open>rejected\<close> and archive for \<open>archived\<close>, each time with the identity of the caller
  and the post ID of the request.
\<close>

theorem moderation_actions_fixed_status:
  "requests_status env req posted (ApprovePost_post env req) \<and>
   requests_status env req under_consideration (ApprovePost_delete env req) \<and>
   requests_status env req returned_for_improvement (ApprovePost_return_post env req) \<and>
   requests_status env req rejected (ApprovePost_reject_post env req) \<and>
   requests_status env req archived (ArchivePost_post env req)"
  by (simp add: requests_status_def ApprovePost_post_def ApprovePost_delete_def
      ApprovePost_return_post_def ApprovePost_reject_post_def ArchivePost_post_def
      reply_def invoke_def get_jwt_identity_def split: sum.split)

text \<open>
  C1: unarchiving checks the target status first. When the parameter \<^verbatim>\<open>status\<close> is
  absent, is the name of no post status, or is \<^verbatim>\<open>archived\<close>, the handler aborts with
  400 "Incorrect status value" and has made no service call. When it is the name of a
  status \<open>S\<close> other than \<open>archived\<close>, the handler asks \<^verbatim>\<open>set_post_status\<close> for exactly
  \<open>S\<close>.
\<close>

theorem unarchive_checks_status:
  "(map_of (args req) ''status'' = None \<or>
    (\<exists>s. map_of (args req) ''status'' = Some s \<and> (\<forall>S. s \<noteq> PostStatus_name S)) \<or>
    map_of (args req) ''status'' = Some (PostStatus_name archived)
      \<longrightarrow> ArchivePost_delete env req = ([], Inl (Abort 400 ''Incorrect status value''))) \<and>
   (map_of (args req) ''status'' = Some (PostStatus_name S) \<and> S \<noteq> archived
      \<longrightarrow> requests_status env req S (ArchivePost_delete env req))"
proof (intro conjI impI)
  assume bad: "map_of (args req) ''status'' = None \<or>
    (\<exists>s. map_of (args req) ''status'' = Some s \<and> (\<forall>S. s \<noteq> PostStatus_name S)) \<or>
    map_of (args req) ''status'' = Some (PostStatus_name archived)"
  have empty_no_name: "PostStatus_getitem [] = None"
    by (simp add: PostStatus_getitem_def)
  from bad consider
      (absent) "args_get req ''status'' [] = []"
    | (no_name) "PostStatus_getitem (args_get req ''status'' []) = None"
    | (is_archived) "PostStatus_getitem (args_get req ''status'' []) = Some archived"
    by (auto simp: args_get_def PostStatus_getitem_None PostStatus_getitem_name)
  then show "ArchivePost_delete env req = ([], Inl (Abort 400 ''Incorrect status value''))"
    by cases (simp_all add: ArchivePost_delete_def empty_no_name)
next
  assume good: "map_of (args req) ''status'' = Some (PostStatus_name S) \<and> S \<noteq> archived"
  then have "PostStatus_getitem (args_get req ''status'' []) = Some S"
    by (simp add: args_get_def PostStatus_getitem_name)
  with good show "requests_status env req S (ArchivePost_delete env req)"
    by (simp add: ArchivePost_delete_def requests_status_def reply_def invoke_def
        get_jwt_identity_def split: sum.split)
qed

theorem unarchive_checks_status_witness:
  "map_of (args (example_request [(''id'', ''p1'')])) ''status'' = None \<and>
   ArchivePost_delete example_env (example_request [(''id'', ''p1'')])
     = ([], Inl (Abort 400 ''Incorrect status value'')) \<and>
   ArchivePost_delete example_env (example_request [(''id'', ''p1''), (''status'', ''archived'')])
     = ([], Inl (Abort 400 ''Incorrect status value'')) \<and>
   ArchivePost_delete example_env (example_request [(''id'', ''p1''), (''status'', ''Posted'')])
     = ([], Inl (Abort 400 ''Incorrect status value'')) \<and>
   map_of (args (example_request [(''id'', ''p1''), (''status'', ''rejected'')])) ''status''
     = Some (PostStatus_name rejected) \<and>
   fst (ArchivePost_delete example_env
          (example_request [(''id'', ''p1''), (''status'', ''rejected'')]))
     = [Set_post_status ''e1'' ''p1'' rejected]"
proof -
  let ?absent = "example_request [(''id'', ''p1'')]"
  let ?archived = "example_request [(''id'', ''p1''), (''status'', ''archived'')]"
  let ?unknown = "example_request [(''id'', ''p1''), (''status'', ''Posted'')]"
  let ?rejected = "example_request [(''id'', ''p1''), (''status'', ''rejected'')]"
  have absent: "map_of (args ?absent) ''status'' = None"
    by (simp add: example_request_def)
  with unarchive_checks_status [of ?absent example_env]
  have a: "ArchivePost_delete example_env ?absent
      = ([], Inl (Abort 400 ''Incorrect status value''))"
    by blast
  have "map_of (args ?archived) ''status'' = Some (PostStatus_name archived)"
    by (simp add: example_request_def PostStatus_name_def)
  with unarchive_checks_status [of ?archived example_env]
  have b: "ArchivePost_delete example_env ?archived
      = ([], Inl (Abort 400 ''Incorrect status value''))"
    by blast
  have "\<forall>S. ''Posted'' \<noteq> PostStatus_name S"
    using PostStatus_getitem_None [of "''Posted''"] by (simp add: PostStatus_getitem_def)
  then have "\<exists>s. map_of (args ?unknown) ''status'' = Some s \<and> (\<forall>S. s \<noteq> PostStatus_name S)"
    by (simp add: example_request_def)
  with unarchive_checks_status [of ?unknown example_env]
  have c: "ArchivePost_delete example_env ?unknown
      = ([], Inl (Abort 400 ''Incorrect status value''))"
    by blast
  have rejected: "map_of (args ?rejected) ''status'' = Some (PostStatus_name rejected)"
    by (simp add: example_request_def PostStatus_name_def)
  with unarchive_checks_status [of ?rejected example_env rejected]
  have "requests_status example_env ?rejected rejected
      (ArchivePost_delete example_env ?rejected)"
    by simp
  moreover have "get_uuid example_env (Of_request ?rejected) = Inr ''p1''"
    and "jwt_identity ?rejected = ''e1''"
    by (simp_all add: example_env_def example_request_def)
  ultimately have d: "fst (ArchivePost_delete example_env ?rejected)
      = [Set_post_status ''e1'' ''p1'' rejected]"
    by (simp add: requests_status_def)
  from absent a b c rejected d show ?thesis by blast
qed

section \<open>Properties of the validating handlers\<close>

lemma PostStatus_name_eq: "(PostStatus_name S = s) = (PostStatus_getitem s = Some S)"
  using PostStatus_getitem_name PostStatus_getitem_Some by blast

lemma set_py_set: "set (py_set env xs) = set xs"
  by (simp add: py_set_def Let_def)


lemma set_query_param_to_set:
  "set (query_param_to_set env name req) = set (split_commas (args_get req name []))"
  by (simp add: query_param_to_set_def set_py_set)

lemma PostStatus_name_nonempty: "PostStatus_name S \<noteq> []"
  by (cases S) (simp_all add: PostStatus_name_def)

lemma parse_statuses_ok:
  "\<forall>s\<in>set xs. s \<noteq> [] \<longrightarrow> (\<exists>S. s = PostStatus_name S) \<Longrightarrow>
   parse_statuses xs acc = Inr (acc \<union> {S. PostStatus_name S \<in> set xs})"
proof (induction xs arbitrary: acc)
  case Nil
  then show ?case by simp
next
  case (Cons x xs)
  show ?case
  proof (cases "x = []")
    case True
    with Cons show ?thesis
      by (auto simp: PostStatus_name_nonempty)
  next
    case False
    with Cons.prems obtain S where S: "x = PostStatus_name S" by auto
    have "parse_statuses xs (insert S acc) = Inr (insert S acc \<union> {S. PostStatus_name S \<in> set xs})"
      using Cons by simp
    moreover have "{T. PostStatus_name T = PostStatus_name S} = {S}"
      using PostStatus_getitem_name [of S] PostStatus_getitem_name
      by (auto dest!: arg_cong [where f = PostStatus_getitem])
    then have "{T. PostStatus_name T \<in> set (x # xs)} = insert S {T. PostStatus_name T \<in> set xs}"
      using S by auto
    ultimately show ?thesis
      using False S by (simp add: PostStatus_getitem_name)
  qed
qed

lemma parse_statuses_bad:
  "\<exists>s\<in>set xs. s \<noteq> [] \<and> (\<forall>S. s \<noteq> PostStatus_name S) \<Longrightarrow>
   \<exists>s\<in>set xs. s \<noteq> [] \<and> (\<forall>S. s \<noteq> PostStatus_name S) \<and>
     parse_statuses xs acc = Inl (Abort 422 (incorrect_status_value s))"
proof (induction xs arbitrary: acc)
  case Nil
  then show ?case by simp
next
  case (Cons x xs)
  show ?case
  proof (cases "x \<noteq> [] \<and> PostStatus_getitem x = None")
    case True
    then have "parse_statuses (x # xs) acc = Inl (Abort 422 (incorrect_status_value x))"
      by simp
    moreover have "\<forall>S. x \<noteq> PostStatus_name S"
      using True PostStatus_getitem_None by blast
    ultimately show ?thesis
      using True by (intro bexI [of _ x]) simp_all
  next
    case False
    have "\<exists>acc'. parse_statuses (x # xs) acc = parse_statuses xs acc'"
    proof (cases "x = []")
      case True
      then have "parse_statuses (x # xs) acc = parse_statuses xs acc" by simp
      then show ?thesis ..
    next
      case nonempty: False
      with False obtain S where "PostStatus_getitem x = Some S" by auto
      with nonempty have "parse_statuses (x # xs) acc = parse_statuses xs (insert S acc)"
        by simp
      then show ?thesis ..
    qed
    then obtain acc' where step: "parse_statuses (x # xs) acc = parse_statuses xs acc'" ..
    from False have "x = [] \<or> (\<exists>S. x = PostStatus_name S)"
      using PostStatus_getitem_None by blast
    with Cons.prems have "\<exists>s\<in>set xs. s \<noteq> [] \<and> (\<forall>S. s \<noteq> PostStatus_name S)"
      by auto
    from Cons.IH [OF this, of acc'] obtain s where
      "s \<in> set xs" "s \<noteq> []" "\<forall>S. s \<noteq> PostStatus_name S"
      "parse_statuses xs acc' = Inl (Abort 422 (incorrect_status_value s))"
      by blast
    with step show ?thesis
      by (intro bexI [of _ s]) simp_all
  qed
qed

lemma EmployeeType_of_value_eq:
  "EmployeeType_of_value env v = (if v \<in> set (employee_type_values env) then Some (EmployeeType_member v) else None)"
  by (simp add: EmployeeType_of_value_def)

lemma parse_types_ok:
  "\<forall>t\<in>set xs. t \<in> set (employee_type_values env) \<Longrightarrow>
   parse_types env xs acc = Inr (acc \<union> EmployeeType_member ` set xs)"
  by (induction xs arbitrary: acc) (auto simp: EmployeeType_of_value_def)

lemma parse_types_bad:
  "\<exists>t\<in>set xs. t \<notin> set (employee_type_values env) \<Longrightarrow>
   \<exists>t\<in>set xs. t \<notin> set (employee_type_values env) \<and>
     parse_types env xs acc =
       Inl (Abort 400 (incorrect_employee_type t))"
proof (induction xs arbitrary: acc)
  case Nil
  then show ?case by simp
next
  case (Cons x xs)
  show ?case
  proof (cases "x \<in> set (employee_type_values env)")
    case True
    then have step: "parse_types env (x # xs) acc =
        parse_types env xs (insert (EmployeeType_member x) acc)"
      by (simp add: EmployeeType_of_value_def)
    from True Cons.prems have "\<exists>t\<in>set xs. t \<notin> set (employee_type_values env)" by auto
    from Cons.IH [OF this, of "insert (EmployeeType_member x) acc"] obtain t where
      "t \<in> set xs" "t \<notin> set (employee_type_values env)"
      "parse_types env xs (insert (EmployeeType_member x) acc) =
         Inl (Abort 400 (incorrect_employee_type t))"
      by blast
    with step show ?thesis
      by (intro bexI [of _ t]) simp_all
  next
    case False
    then have "parse_types env (x # xs) acc = Inl (Abort 400 (incorrect_employee_type x))"
      by (simp add: EmployeeType_of_value_def)
    then show ?thesis
      using False by (intro bexI [of _ x]) simp_all
  qed
qed


lemma reply_invoke: "reply m k (invoke env c) = answered env c m k"
  by (simp add: reply_def invoke_def answered_def split: sum.split)

lemma set_query_param_supplied: "set (query_param_to_set env name req) = supplied req name"
  by (simp add: supplied_def set_query_param_to_set)

text \<open>
  C6: the moderation listing checks the supplied statuses before it fetches anything. When
  some non-empty element of the supplied set is the name of no post status, the handler
  aborts with 422 and a message "Incorrect status value" naming such an element, and has
  made no service call. Otherwise, once \<^verbatim>\<open>get_page\<close> has read the page, the handler
  makes the one call \<^verbatim>\<open>get_all_posts\<close> whose filter is exactly the set of the statuses
  named by the supplied elements.
\<close>

theorem moderation_checks_statuses:
  "((\<exists>s\<in>supplied req ''statuses''. s \<noteq> [] \<and> (\<forall>S. s \<noteq> PostStatus_name S)) \<longrightarrow>
      (\<exists>s\<in>supplied req ''statuses''. s \<noteq> [] \<and> (\<forall>S. s \<noteq> PostStatus_name S) \<and>
         PostModeration_get env req = ([], Inl (Abort 422 (incorrect_status_value s))))) \<and>
   ((\<forall>s\<in>supplied req ''statuses''. s \<noteq> [] \<longrightarrow> (\<exists>S. s = PostStatus_name S)) \<longrightarrow>
      PostModeration_get env req =
        (case get_page env req of
           Inl e \<Rightarrow> ([], Inl e)
         | Inr page \<Rightarrow>
             answered env
               (Get_all_posts (jwt_identity req) page
                  {S. PostStatus_name S \<in> supplied req ''statuses''}
                  (args_get req ''reverse'' ''true'' = ''true''))
               (Some (counted_posts_list, False)) 200))"
proof (intro conjI impI)
  let ?raw = "query_param_to_set env ''statuses'' req"
  assume "\<exists>s\<in>supplied req ''statuses''. s \<noteq> [] \<and> (\<forall>S. s \<noteq> PostStatus_name S)"
  then have "\<exists>s\<in>set ?raw. s \<noteq> [] \<and> (\<forall>S. s \<noteq> PostStatus_name S)"
    by (simp add: set_query_param_supplied)
  from parse_statuses_bad [OF this, of "{}"] obtain s where
    s: "s \<in> set ?raw" "s \<noteq> []" "\<forall>S. s \<noteq> PostStatus_name S"
    and stop: "parse_statuses ?raw {} = Inl (Abort 422 (incorrect_status_value s))"
    by blast
  from stop have "PostModeration_get env req = ([], Inl (Abort 422 (incorrect_status_value s)))"
    by (simp add: PostModeration_get_def)
  with s show "\<exists>s\<in>supplied req ''statuses''. s \<noteq> [] \<and> (\<forall>S. s \<noteq> PostStatus_name S) \<and>
      PostModeration_get env req = ([], Inl (Abort 422 (incorrect_status_value s)))"
    unfolding set_query_param_supplied by blast
next
  let ?raw = "query_param_to_set env ''statuses'' req"
  assume "\<forall>s\<in>supplied req ''statuses''. s \<noteq> [] \<longrightarrow> (\<exists>S. s = PostStatus_name S)"
  then have "\<forall>s\<in>set ?raw. s \<noteq> [] \<longrightarrow> (\<exists>S. s = PostStatus_name S)"
    by (simp add: set_query_param_supplied)
  from parse_statuses_ok [OF this, of "{}"]
  have "parse_statuses ?raw {} = Inr {S. PostStatus_name S \<in> supplied req ''statuses''}"
    by (simp add: set_query_param_supplied)
  then show "PostModeration_get env req =
      (case get_page env req of
         Inl e \<Rightarrow> ([], Inl e)
       | Inr page \<Rightarrow>
           answered env
             (Get_all_posts (jwt_identity req) page
                {S. PostStatus_name S \<in> supplied req ''statuses''}
                (args_get req ''reverse'' ''true'' = ''true''))
             (Some (counted_posts_list, False)) 200)"
    by (simp add: PostModeration_get_def reply_invoke get_jwt_identity_def split: sum.split)
qed

theorem moderation_checks_statuses_witness:
  "supplied (example_request [(''page'', ''1''), (''statuses'', ''posted,bogus'')]) ''statuses''
     = {''posted'', ''bogus''} \<and>
   PostModeration_get example_env
     (example_request [(''page'', ''1''), (''statuses'', ''posted,bogus'')])
     = ([], Inl (Abort 422 (incorrect_status_value ''bogus''))) \<and>
   supplied (example_request [(''page'', ''2''), (''statuses'', ''posted,,rejected'')]) ''statuses''
     = {''posted'', [], ''rejected''} \<and>
   PostModeration_get example_env
     (example_request [(''page'', ''2''), (''statuses'', ''posted,,rejected'')])
     = answered example_env (Get_all_posts ''e1'' 2 {posted, rejected} True)
         (Some (counted_posts_list, False)) 200"
proof -
  let ?bad = "example_request [(''page'', ''1''), (''statuses'', ''posted,bogus'')]"
  let ?good = "example_request [(''page'', ''2''), (''statuses'', ''posted,,rejected'')]"
  have bad_set: "supplied ?bad ''statuses'' = {''posted'', ''bogus''}"
    by code_simp
  have good_set: "supplied ?good ''statuses'' = {''posted'', [], ''rejected''}"
    by code_simp
  have no_name: "\<forall>S. ''bogus'' \<noteq> PostStatus_name S"
    using PostStatus_getitem_None [of "''bogus''"] by (simp add: PostStatus_getitem_def)
  have posted: "''posted'' = PostStatus_name posted"
    and rejected: "''rejected'' = PostStatus_name rejected"
    by (simp_all add: PostStatus_name_def)
  have "\<exists>s\<in>supplied ?bad ''statuses''. s \<noteq> [] \<and> (\<forall>S. s \<noteq> PostStatus_name S)"
    unfolding bad_set using no_name by (intro bexI [of _ "''bogus''"]) simp_all
  with moderation_checks_statuses [of ?bad example_env] obtain s where
    "s \<in> supplied ?bad ''statuses''" "\<forall>S. s \<noteq> PostStatus_name S"
    "PostModeration_get example_env ?bad = ([], Inl (Abort 422 (incorrect_status_value s)))"
    by blast
  then have bad: "PostModeration_get example_env ?bad
      = ([], Inl (Abort 422 (incorrect_status_value ''bogus'')))"
    unfolding bad_set using posted by auto
  have "\<forall>s\<in>supplied ?good ''statuses''. s \<noteq> [] \<longrightarrow> (\<exists>S. s = PostStatus_name S)"
    unfolding good_set using posted rejected by blast
  with moderation_checks_statuses [of ?good example_env]
  have "PostModeration_get example_env ?good =
      (case get_page example_env ?good of
         Inl e \<Rightarrow> ([], Inl e)
       | Inr page \<Rightarrow>
           answered example_env
             (Get_all_posts (jwt_identity ?good) page
                {S. PostStatus_name S \<in> supplied ?good ''statuses''}
                (args_get ?good ''reverse'' ''true'' = ''true''))
             (Some (counted_posts_list, False)) 200)"
    by blast
  moreover have "{S. PostStatus_name S \<in> supplied ?good ''statuses''} = {posted, rejected}"
    unfolding good_set by (auto simp: PostStatus_name_eq PostStatus_getitem_def)
  moreover have "get_page example_env ?good = Inr 2"
    and "jwt_identity ?good = ''e1''"
    and "(args_get ?good ''reverse'' ''true'' = ''true'') = True"
    by code_simp+
  ultimately have good: "PostModeration_get example_env ?good
      = answered example_env (Get_all_posts ''e1'' 2 {posted, rejected} True)
          (Some (counted_posts_list, False)) 200"
    by simp
  from bad_set bad good_set good show ?thesis by blast
qed

text \<open>
  C9: the listing of fired employees checks the supplied types before the directory is
  queried. When some element of the comma-separated parameter \<^verbatim>\<open>types\<close> is no value of
  \<^verbatim>\<open>EmployeeType\<close>, the handler aborts with 400 and a message "Incorrect employee type"
  naming such an element, and has made no service call. Otherwise, once \<^verbatim>\<open>get_uuid\<close> has
  read the subunit, the one call \<^verbatim>\<open>get_fired_moderators\<close> receives exactly the set of the
  members parsed from the supplied elements.
\<close>

theorem fired_checks_types:
  "((\<exists>t\<in>supplied req ''types''. t \<notin> set (employee_type_values env)) \<longrightarrow>
      (\<exists>t\<in>supplied req ''types''. t \<notin> set (employee_type_values env) \<and>
         AuthRefresh_fired_get env req = ([], Inl (Abort 400 (incorrect_employee_type t))))) \<and>
   ((\<forall>t\<in>supplied req ''types''. t \<in> set (employee_type_values env)) \<longrightarrow>
      AuthRefresh_fired_get env req =
        (case get_uuid env (Of_request req) of
           Inl e \<Rightarrow> ([], Inl e)
         | Inr subunit_id \<Rightarrow>
             answered env
               (Get_fired_moderators subunit_id (EmployeeType_member ` supplied req ''types''))
               (Some (full_employee, True)) 200))"
proof (intro conjI impI)
  let ?raw = "query_param_to_set env ''types'' req"
  assume "\<exists>t\<in>supplied req ''types''. t \<notin> set (employee_type_values env)"
  then have "\<exists>t\<in>set ?raw. t \<notin> set (employee_type_values env)"
    by (simp add: set_query_param_supplied)
  from parse_types_bad [OF this, of "{}"] obtain t where
    t: "t \<in> set ?raw" "t \<notin> set (employee_type_values env)"
    and stop: "parse_types env ?raw {} = Inl (Abort 400 (incorrect_employee_type t))"
    by blast
  from stop have "AuthRefresh_fired_get env req = ([], Inl (Abort 400 (incorrect_employee_type t)))"
    by (simp add: AuthRefresh_fired_get_def)
  with t show "\<exists>t\<in>supplied req ''types''. t \<notin> set (employee_type_values env) \<and>
      AuthRefresh_fired_get env req = ([], Inl (Abort 400 (incorrect_employee_type t)))"
    unfolding set_query_param_supplied by blast
next
  let ?raw = "query_param_to_set env ''types'' req"
  assume "\<forall>t\<in>supplied req ''types''. t \<in> set (employee_type_values env)"
  then have "\<forall>t\<in>set ?raw. t \<in> set (employee_type_values env)"
    by (simp add: set_query_param_supplied)
  from parse_types_ok [OF this, of "{}"]
  have "parse_types env ?raw {} = Inr (EmployeeType_member ` supplied req ''types'')"
    by (simp add: set_query_param_supplied)
  then show "AuthRefresh_fired_get env req =
      (case get_uuid env (Of_request req) of
         Inl e \<Rightarrow> ([], Inl e)
       | Inr subunit_id \<Rightarrow>
           answered env
             (Get_fired_moderators subunit_id (EmployeeType_member ` supplied req ''types''))
             (Some (full_employee, True)) 200)"
    by (simp add: AuthRefresh_fired_get_def reply_invoke split: sum.split)
qed

theorem fired_checks_types_witness:
  "supplied (example_request [(''id'', ''s1''), (''types'', ''admin,boss'')]) ''types''
     = {''admin'', ''boss''} \<and>
   AuthRefresh_fired_get example_env
     (example_request [(''id'', ''s1''), (''types'', ''admin,boss'')])
     = ([], Inl (Abort 400 (incorrect_employee_type ''boss''))) \<and>
   supplied (example_request [(''id'', ''s1''), (''types'', ''admin,user'')]) ''types''
     = {''admin'', ''user''} \<and>
   AuthRefresh_fired_get example_env
     (example_request [(''id'', ''s1''), (''types'', ''admin,user'')])
     = answered example_env
         (Get_fired_moderators ''s1'' {EmployeeType_member ''admin'', EmployeeType_member ''user''})
         (Some (full_employee, True)) 200"
proof -
  let ?bad = "example_request [(''id'', ''s1''), (''types'', ''admin,boss'')]"
  let ?good = "example_request [(''id'', ''s1''), (''types'', ''admin,user'')]"
  have bad_set: "supplied ?bad ''types'' = {''admin'', ''boss''}"
    by code_simp
  have good_set: "supplied ?good ''types'' = {''admin'', ''user''}"
    by code_simp
  have vals: "set (employee_type_values example_env) = {''admin'', ''moderator'', ''user''}"
    by (simp add: example_env_def)
  have "\<exists>t\<in>supplied ?bad ''types''. t \<notin> set (employee_type_values example_env)"
    unfolding bad_set vals by simp
  with fired_checks_types [of ?bad example_env] obtain t where
    "t \<in> supplied ?bad ''types''" "t \<notin> set (employee_type_values example_env)"
    "AuthRefresh_fired_get example_env ?bad = ([], Inl (Abort 400 (incorrect_employee_type t)))"
    by blast
  then have bad: "AuthRefresh_fired_get example_env ?bad
      = ([], Inl (Abort 400 (incorrect_employee_type ''boss'')))"
    unfolding bad_set vals by auto
  have "\<forall>t\<in>supplied ?good ''types''. t \<in> set (employee_type_values example_env)"
    unfolding good_set vals by simp
  with fired_checks_types [of ?good example_env]
  have "AuthRefresh_fired_get example_env ?good =
      (case get_uuid example_env (Of_request ?good) of
         Inl e \<Rightarrow> ([], Inl e)
       | Inr subunit_id \<Rightarrow>
           answered example_env
             (Get_fired_moderators subunit_id (EmployeeType_member ` supplied ?good ''types''))
             (Some (full_employee, True)) 200)"
    by blast
  moreover have "get_uuid example_env (Of_request ?good) = Inr ''s1''"
    by code_simp
  ultimately have good: "AuthRefresh_fired_get example_env ?good
      = answered example_env
          (Get_fired_moderators ''s1'' {EmployeeType_member ''admin'', EmployeeType_member ''user''})
          (Some (full_employee, True)) 200"
    unfolding good_set by simp
  from bad_set bad good_set good show ?thesis by blast
qed

text \<open>
  C7: a refresh answers with a token pair for the identity of the presented refresh token.
  The access token and the refresh token are both created with the identity that
  \<^verbatim>\<open>get_jwt_identity\<close> reads from the request, and \<^verbatim>\<open>user_id\<close> is that identity; the
  response has code 200 and no service is called.
\<close>

theorem refresh_keeps_identity:
  "AuthRefresh_post env req =
     ([], Inr \<lparr>body = Token_pair (create_access_token env (jwt_identity req))
                           (create_refresh_token env (jwt_identity req)) (jwt_identity req),
                 code = 200, marshal_with = Some (token, False)\<rparr>)"
  by (simp add: AuthRefresh_post_def get_jwt_identity_def Let_def)


section \<open>Properties of the post service of the specification\<close>

lemma month_of_index:
  "valid_month m \<Longrightarrow> ((y * 12 + (m - 1)) div 12, (y * 12 + (m - 1)) mod 12 + 1) = (y, m)"
  unfolding valid_month_def by auto

lemma index_of_month:
  "valid_month (k mod 12 + 1) \<and> month_index (k div 12, k mod 12 + 1) = k"
  unfolding valid_month_def month_index_def by auto

lemma set_months_between:
  "set (months_between a b) =
     {ym. valid_month (snd ym) \<and> month_index a \<le> month_index ym \<and> month_index ym \<le> month_index b}"
proof (intro set_eqI iffI)
  fix ym
  assume "ym \<in> set (months_between a b)"
  then obtain k where k: "month_index a \<le> k" "k \<le> month_index b"
    and ym: "ym = (k div 12, k mod 12 + 1)"
    by (auto simp: months_between_def)
  from index_of_month [of k] k show "ym \<in> {ym. valid_month (snd ym) \<and>
      month_index a \<le> month_index ym \<and> month_index ym \<le> month_index b}"
    unfolding ym by simp
next
  fix ym
  assume "ym \<in> {ym. valid_month (snd ym) \<and>
      month_index a \<le> month_index ym \<and> month_index ym \<le> month_index b}"
  then have valid: "valid_month (snd ym)"
    and range: "month_index ym \<in> {month_index a .. month_index b}"
    by simp_all
  from month_of_index [OF valid, of "fst ym"]
  have "(month_index ym div 12, month_index ym mod 12 + 1) = ym"
    by (simp add: month_index_def)
  with range show "ym \<in> set (months_between a b)"
    unfolding months_between_def by (metis (mono_tags, lifting) image_eqI set_map set_upto)
qed

lemma month_index_le:
  "valid_month (snd a) \<Longrightarrow> valid_month (snd b) \<Longrightarrow>
   (month_index a \<le> month_index b) = (\<not> precedes b a)"
  unfolding valid_month_def month_index_def precedes_def by auto

lemma map_of_buckets:
  "map_of (map (\<lambda>ym. (ym, f ym)) yms) ym = (if ym \<in> set yms then Some (f ym) else None)"
  by (induction yms) auto

lemma buckets_in_range:
  assumes "valid_month sm" "valid_month em"
  shows "map_of (map (\<lambda>ym. (ym, f ym)) (months_between (sy, sm) (ey, em))) ym =
     (if valid_month (snd ym) \<and> \<not> precedes ym (sy, sm) \<and> \<not> precedes (ey, em) ym
      then Some (f ym) else None)"
proof (cases "valid_month (snd ym)")
  case True
  with assms show ?thesis
    by (simp add: map_of_buckets set_months_between month_index_le)
next
  case False
  then show ?thesis
    by (simp add: map_of_buckets set_months_between)
qed


lemma set_selected_subunits:
  "set (selected_subunits st ids) =
     {su \<in> set (subunits st). case ids of None \<Rightarrow> True | Some us \<Rightarrow> fst su \<in> set us}"
  by (auto simp: selected_subunits_def split: option.splits)

text \<open>
  C4: the statistics operation checks the dates. It fails with 422 when the end date
  (end year, end month) precedes the start date or when either month is outside 1 to 12.
  Otherwise it returns a table with one row for each selected subunit, in which every
  year-month of the inclusive range, and no other, has the count of the posts of that
  subunit in that month; the selected subunits are those of the filter, or all of them
  when there is no filter.
\<close>

theorem get_statistics_dates:
  "(precedes (ey, em) (sy, sm) \<or> \<not> valid_month sm \<or> \<not> valid_month em \<longrightarrow>
      get_statistics st sy sm ey em ids = Inl (Abort 422 ''Invalid date given'')) \<and>
   (\<not> precedes (ey, em) (sy, sm) \<and> valid_month sm \<and> valid_month em \<longrightarrow>
      (\<exists>table. get_statistics st sy sm ey em ids = Inr table \<and>
         list_all2
           (\<lambda>su row. fst row = snd su \<and>
              (\<forall>ym. map_of (snd row) ym =
                 (if valid_month (snd ym) \<and> \<not> precedes ym (sy, sm) \<and> \<not> precedes (ey, em) ym
                  then Some (count_posts st (fst su) ym) else None)))
           (selected_subunits st ids) table)) \<and>
   set (selected_subunits st ids) =
     {su \<in> set (subunits st). case ids of None \<Rightarrow> True | Some us \<Rightarrow> fst su \<in> set us}"
proof (intro conjI impI)
  assume "precedes (ey, em) (sy, sm) \<or> \<not> valid_month sm \<or> \<not> valid_month em"
  then show "get_statistics st sy sm ey em ids = Inl (Abort 422 ''Invalid date given'')"
    by (auto simp: get_statistics_def)
next
  assume ok: "\<not> precedes (ey, em) (sy, sm) \<and> valid_month sm \<and> valid_month em"
  let ?row = "\<lambda>su. (snd su, map (\<lambda>ym. (ym, count_posts st (fst su) ym))
      (months_between (sy, sm) (ey, em)))"
  let ?table = "map ?row (selected_subunits st ids)"
  from ok have "get_statistics st sy sm ey em ids = Inr ?table"
    by (simp add: get_statistics_def)
  moreover have "list_all2
      (\<lambda>su row. fst row = snd su \<and>
         (\<forall>ym. map_of (snd row) ym =
            (if valid_month (snd ym) \<and> \<not> precedes ym (sy, sm) \<and> \<not> precedes (ey, em) ym
             then Some (count_posts st (fst su) ym) else None)))
      (selected_subunits st ids) ?table"
    using ok by (simp add: list_all2_map2 list_all2_same buckets_in_range)
  ultimately show "\<exists>table. get_statistics st sy sm ey em ids = Inr table \<and>
      list_all2
        (\<lambda>su row. fst row = snd su \<and>
           (\<forall>ym. map_of (snd row) ym =
              (if valid_month (snd ym) \<and> \<not> precedes ym (sy, sm) \<and> \<not> precedes (ey, em) ym
               then Some (count_posts st (fst su) ym) else None)))
        (selected_subunits st ids) table"
    by blast
next
  show "set (selected_subunits st ids) =
     {su \<in> set (subunits st). case ids of None \<Rightarrow> True | Some us \<Rightarrow> fst su \<in> set us}"
    by (rule set_selected_subunits)
qed

theorem get_statistics_dates_witness:
  "precedes (2020, 11) (2020, 12) \<and>
   get_statistics example_store 2020 12 2020 11 None = Inl (Abort 422 ''Invalid date given'') \<and>
   \<not> valid_month 13 \<and>
   get_statistics example_store 2020 11 2020 13 None = Inl (Abort 422 ''Invalid date given'') \<and>
   \<not> precedes (2020, 12) (2020, 11) \<and> valid_month 11 \<and> valid_month 12 \<and>
   get_statistics example_store 2020 11 2020 12 (Some [''s1''])
     = Inr [(''IT department'', [((2020, 11), 10), ((2020, 12), 0)])]"
proof -
  have early: "precedes (2020, 11) (2020, 12)"
    and late: "\<not> valid_month 13"
    and ok: "\<not> precedes (2020, 12) (2020, 11) \<and> valid_month 11 \<and> valid_month 12"
    by (simp_all add: precedes_def valid_month_def)
  from early get_statistics_dates [of 2020 11 2020 12 example_store None]
  have a: "get_statistics example_store 2020 12 2020 11 None = Inl (Abort 422 ''Invalid date given'')"
    by blast
  from late get_statistics_dates [of 2020 13 2020 11 example_store None]
  have b: "get_statistics example_store 2020 11 2020 13 None = Inl (Abort 422 ''Invalid date given'')"
    by blast
  from ok get_statistics_dates [of 2020 12 2020 11 example_store "Some [''s1'']"]
  obtain table where
    "get_statistics example_store 2020 11 2020 12 (Some [''s1'']) = Inr table"
    by blast
  moreover have "get_statistics example_store 2020 11 2020 12 (Some [''s1''])
     = Inr [(''IT department'', [((2020, 11), 10), ((2020, 12), 0)])]"
    by code_simp
  ultimately have c: "get_statistics example_store 2020 11 2020 12 (Some [''s1''])
     = Inr [(''IT department'', [((2020, 11), 10), ((2020, 12), 0)])]"
    by simp
  from early a late b ok c show ?thesis by blast
qed

text \<open>
  C3: a newly created post has the status \<open>under_consideration\<close>. Creation fails with
  404 when a referenced attachment does not exist; otherwise it succeeds, and whenever it
  returns a post, that post is stored with the status \<open>under_consideration\<close> and no
  other. The handler \<^verbatim>\<open>Post.post\<close> passes the identity of the caller and the payload to
  \<^verbatim>\<open>create_post\<close> and answers with code 201.
\<close>

theorem create_post_initial_status:
  "((\<exists>a\<in>set (attachments draft). a \<notin> set (attachment_ids st)) \<longrightarrow>
      create_post st who draft = Inl (Abort 404 ''Attachment not found'')) \<and>
   ((\<forall>a\<in>set (attachments draft). a \<in> set (attachment_ids st)) \<longrightarrow>
      (\<exists>p. create_post st who draft = Inr (p, st\<lparr>posts := posts st @ [p]\<rparr>) \<and>
           status p = under_consideration \<and> author p = who)) \<and>
   (\<forall>p st'. create_post st who draft = Inr (p, st') \<longrightarrow>
      status p = under_consideration \<and> p \<in> set (posts st')) \<and>
   Post_post env req =
     answered env (Create_post (jwt_identity req) (payload req)) (Some (full_post, False)) 201"
  by (auto simp: create_post_def Let_def list_all_iff Post_post_def reply_invoke
      get_jwt_identity_def)

theorem create_post_initial_status_witness:
  "create_post example_store ''e1'' \<lparr>content = ''x'', attachments = [''a9'']\<rparr>
     = Inl (Abort 404 ''Attachment not found'') \<and>
   (\<exists>p st'. create_post example_store ''e1'' \<lparr>content = ''x'', attachments = [''a1'']\<rparr>
        = Inr (p, st') \<and> status p = under_consideration \<and> p \<in> set (posts st'))"
proof -
  let ?missing = "\<lparr>content = ''x'', attachments = [''a9'']\<rparr>"
  let ?present = "\<lparr>content = ''x'', attachments = [''a1'']\<rparr>"
  have "\<exists>a\<in>set (attachments ?missing). a \<notin> set (attachment_ids example_store)"
    by (simp add: example_store_def)
  with create_post_initial_status [of ?missing example_store "''e1''"]
  have a: "create_post example_store ''e1'' ?missing = Inl (Abort 404 ''Attachment not found'')"
    by blast
  have "\<forall>a\<in>set (attachments ?present). a \<in> set (attachment_ids example_store)"
    by (simp add: example_store_def)
  with create_post_initial_status [of ?present example_store "''e1''"]
  obtain p where p: "create_post example_store ''e1'' ?present
      = Inr (p, example_store\<lparr>posts := posts example_store @ [p]\<rparr>)"
    "status p = under_consideration"
    by blast
  then have "p \<in> set (posts (example_store\<lparr>posts := posts example_store @ [p]\<rparr>))"
    by simp
  with a p show ?thesis by blast
qed

section \<open>Properties of the listings\<close>

lemma ArchivePost_get_eq:
  "ArchivePost_get env req =
     (case get_page env req of
        Inl e \<Rightarrow> ([], Inl e)
      | Inr page \<Rightarrow> answered env (Get_archived_posts page) (Some (counted_posts_list, False)) 200)"
  by (simp add: ArchivePost_get_def reply_invoke split: sum.split)

lemma PostModeration_get_eq:
  "PostModeration_get env req =
     (case parse_statuses (query_param_to_set env ''statuses'' req) {} of
        Inl e \<Rightarrow> ([], Inl e)
      | Inr statuses \<Rightarrow>
          (case get_page env req of
             Inl e \<Rightarrow> ([], Inl e)
           | Inr page \<Rightarrow>
               answered env
                 (Get_all_posts (jwt_identity req) page statuses
                    (args_get req ''reverse'' ''true'' = ''true''))
                 (Some (counted_posts_list, False)) 200))"
  by (simp add: PostModeration_get_def reply_invoke get_jwt_identity_def split: sum.split)

lemma Post_of_employee_get_eq:
  "Post_of_employee_get env req =
     (case get_uuid env (Of_request req) of
        Inl e \<Rightarrow> ([], Inl e)
      | Inr employee_id \<Rightarrow>
          answered env (Get_all_employee_posts employee_id) (Some (full_post, True)) 200)"
  by (simp add: Post_of_employee_get_def reply_invoke split: sum.split)

text \<open>
  The listing of an employee's posts is not paginated: with the page number 1 or 2 in the
  request the handler makes the same call \<^verbatim>\<open>get_all_employee_posts\<close>, which carries no
  page number, and the response is marshalled as a plain list of \<^verbatim>\<open>full_post\<close>.
\<close>

theorem of_employee_not_paginated:
  "Post_of_employee_get example_env (example_request [(''id'', ''e2''), (''page'', ''1'')])
     = answered example_env (Get_all_employee_posts ''e2'') (Some (full_post, True)) 200 \<and>
   Post_of_employee_get example_env (example_request [(''id'', ''e2''), (''page'', ''2'')])
     = Post_of_employee_get example_env (example_request [(''id'', ''e2''), (''page'', ''1'')]) \<and>
   call_page (Get_all_employee_posts ''e2'') = None \<and>
   \<not> paginated example_env (example_request [(''id'', ''e2''), (''page'', ''1'')])
       (Post_of_employee_get example_env (example_request [(''id'', ''e2''), (''page'', ''1'')]))"
  by code_simp

lemma posts_of_page_nat: "posts_of_page n (int k + 1) xs = take n (drop (k * n) xs)"
  by (simp add: posts_of_page_def)

lemma concat_pages: "concat (map (\<lambda>k. take n (drop (k * n) xs)) [0 ..< m]) = take (m * n) xs"
proof (induction m)
  case 0
  then show ?case by simp
next
  case (Suc m)
  have "take (m * n + n) xs = take (m * n) xs @ take n (drop (m * n) xs)"
    by (rule take_add)
  with Suc show ?case
    by (simp add: add.commute)
qed

lemma pages_cover: "0 < n \<Longrightarrow> length xs \<le> number_of_pages n xs * n"
proof -
  assume pos: "0 < n"
  let ?a = "length xs + n - 1"
  have "?a div n * n + ?a mod n = ?a"
    by simp
  moreover from pos have "?a mod n < n"
    by simp
  ultimately show ?thesis
    unfolding number_of_pages_def by linarith
qed

lemma pages_partition:
  "0 < n \<Longrightarrow>
   concat (map (\<lambda>k. posts_of_page n (int k + 1) xs) [0 ..< number_of_pages n xs]) = xs"
  using pages_cover [of n xs] by (simp add: posts_of_page_nat concat_pages)

lemma posts_of_page_length: "length (posts_of_page n page xs) \<le> n"
  by (simp add: posts_of_page_def)

lemma with_listings_helpers [simp]:
  "get_page (with_listings st env) = get_page env"
  "get_uuid (with_listings st env) = get_uuid env"
  "set_iteration (with_listings st env) = set_iteration env"
  "service (with_listings st env) (Get_archived_posts page) = fst (get_archived_posts st page)"
  "service (with_listings st env) (Get_all_posts who page statuses reverse)
     = fst (get_all_posts st who page statuses reverse)"
  "service (with_listings st env) (Get_all_employee_posts employee_id)
     = fst (get_all_employee_posts st employee_id)"
  by (simp_all add: with_listings_def)

lemma query_param_with_listings:
  "query_param_to_set (with_listings st env) name req = query_param_to_set env name req"
  by (simp add: query_param_to_set_def py_set_def)

text \<open>
  C5, as amended: the listing of archived posts and the moderation listing are read-only and
  paginated; the listing of an employee's posts is read-only and not paginated.
  \<^item> On the code, for every service: whenever the archive or the moderation handler responds,
    it has made one call with the page number read from the request, and the response is
    marshalled with \<^verbatim>\<open>counted_posts_list\<close>; the handler for an employee's posts makes the
    one call \<^verbatim>\<open>get_all_employee_posts\<close> with the employee ID, without a page number, and
    its response is a plain list.
  \<^item> With the listing functions of the specification: the archive handler returns exactly
    the archived posts of the requested page and the number of pages; the moderation
    handler, for a privileged caller and valid statuses, returns exactly the posts of the
    requested page among those with a supplied status, newest first when \<^verbatim>\<open>reverse\<close> is
    true, and the number of pages; the handler for an employee's posts returns all posts of
    that employee.
  \<^item> None of the three listing functions changes the store. A page holds at most
    \<open>page_size\<close> posts, and the pages in order make up the whole list.
\<close>

theorem listings_pagination:
  fixes env :: "'r env" and st :: listing_store
  shows
  "paginated env req (ArchivePost_get env req) \<and>
   paginated env req (PostModeration_get env req) \<and>
   Post_of_employee_get env req =
     (case get_uuid env (Of_request req) of
        Inl e \<Rightarrow> ([], Inl e)
      | Inr employee_id \<Rightarrow>
          answered env (Get_all_employee_posts employee_id) (Some (full_post, True)) 200) \<and>
   (get_page env req = Inr page \<longrightarrow>
      (let found = filter (\<lambda>p. status p = archived) (posts st)
       in ArchivePost_get (with_listings st env) req =
            ([Get_archived_posts page],
             Inr \<lparr>body = Returned (Page_of_posts (posts_of_page (page_size st) page found)
                                     (number_of_pages (page_size st) found)),
                  code = 200, marshal_with = Some (counted_posts_list, False)\<rparr>))) \<and>
   (get_page env req = Inr page \<and> jwt_identity req \<in> set (privileged st) \<and>
    (\<forall>s\<in>supplied req ''statuses''. s \<noteq> [] \<longrightarrow> (\<exists>S. s = PostStatus_name S)) \<longrightarrow>
      (let statuses = {S. PostStatus_name S \<in> supplied req ''statuses''};
           reverse = (args_get req ''reverse'' ''true'' = ''true'');
           found = filter (\<lambda>p. status p \<in> statuses) (posts st);
           ordered = (if reverse then rev found else found)
       in PostModeration_get (with_listings st env) req =
            ([Get_all_posts (jwt_identity req) page statuses reverse],
             Inr \<lparr>body = Returned (Page_of_posts (posts_of_page (page_size st) page ordered)
                                     (number_of_pages (page_size st) ordered)),
                  code = 200, marshal_with = Some (counted_posts_list, False)\<rparr>))) \<and>
   (get_uuid env (Of_request req) = Inr employee_id \<and>
    employee_id \<in> fst ` set (employee_subunit st) \<longrightarrow>
      Post_of_employee_get (with_listings st env) req =
        ([Get_all_employee_posts employee_id],
         Inr \<lparr>body = Returned (All_posts (filter (\<lambda>p. author p = employee_id) (posts st))),
              code = 200, marshal_with = Some (full_post, True)\<rparr>)) \<and>
   snd (get_archived_posts st page :: (failure + 'r listed) \<times> listing_store) = st \<and>
   snd (get_all_posts st who page statuses reverse
          :: (failure + 'r listed) \<times> listing_store) = st \<and>
   snd (get_all_employee_posts st employee_id :: (failure + 'r listed) \<times> listing_store) = st \<and>
   length (posts_of_page (page_size st) page (xs :: post list)) \<le> page_size st \<and>
   (0 < page_size st \<longrightarrow>
      concat (map (\<lambda>k. posts_of_page (page_size st) (int k + 1) xs)
                [0 ..< number_of_pages (page_size st) xs]) = xs)"
proof (intro conjI impI)
  show "paginated env req (ArchivePost_get env req)"
    by (simp add: ArchivePost_get_eq answered_def paginated_def split: sum.split)
  show "paginated env req (PostModeration_get env req)"
    by (simp add: PostModeration_get_eq answered_def paginated_def split: sum.split)
  show "Post_of_employee_get env req =
     (case get_uuid env (Of_request req) of
        Inl e \<Rightarrow> ([], Inl e)
      | Inr employee_id \<Rightarrow>
          answered env (Get_all_employee_posts employee_id) (Some (full_post, True)) 200)"
    by (rule Post_of_employee_get_eq)
next
  assume "get_page env req = Inr page"
  then show "let found = filter (\<lambda>p. status p = archived) (posts st)
       in ArchivePost_get (with_listings st env) req =
            ([Get_archived_posts page],
             Inr \<lparr>body = Returned (Page_of_posts (posts_of_page (page_size st) page found)
                                     (number_of_pages (page_size st) found)),
                  code = 200, marshal_with = Some (counted_posts_list, False)\<rparr>)"
    by (simp add: ArchivePost_get_eq answered_def get_archived_posts_def Let_def)
next
  assume ok: "get_page env req = Inr page \<and> jwt_identity req \<in> set (privileged st) \<and>
    (\<forall>s\<in>supplied req ''statuses''. s \<noteq> [] \<longrightarrow> (\<exists>S. s = PostStatus_name S))"
  then have "\<forall>s\<in>set (query_param_to_set env ''statuses'' req).
      s \<noteq> [] \<longrightarrow> (\<exists>S. s = PostStatus_name S)"
    by (simp add: set_query_param_supplied)
  from parse_statuses_ok [OF this, of "{}"]
  have "parse_statuses (query_param_to_set env ''statuses'' req) {}
      = Inr {S. PostStatus_name S \<in> supplied req ''statuses''}"
    by (simp add: set_query_param_supplied)
  with ok show "let statuses = {S. PostStatus_name S \<in> supplied req ''statuses''};
           reverse = (args_get req ''reverse'' ''true'' = ''true'');
           found = filter (\<lambda>p. status p \<in> statuses) (posts st);
           ordered = (if reverse then rev found else found)
       in PostModeration_get (with_listings st env) req =
            ([Get_all_posts (jwt_identity req) page statuses reverse],
             Inr \<lparr>body = Returned (Page_of_posts (posts_of_page (page_size st) page ordered)
                                     (number_of_pages (page_size st) ordered)),
                  code = 200, marshal_with = Some (counted_posts_list, False)\<rparr>)"
    by (simp add: PostModeration_get_eq query_param_with_listings answered_def
        get_all_posts_def Let_def)
next
  assume "get_uuid env (Of_request req) = Inr employee_id \<and>
    employee_id \<in> fst ` set (employee_subunit st)"
  then show "Post_of_employee_get (with_listings st env) req =
        ([Get_all_employee_posts employee_id],
         Inr \<lparr>body = Returned (All_posts (filter (\<lambda>p. author p = employee_id) (posts st))),
              code = 200, marshal_with = Some (full_post, True)\<rparr>)"
    by (simp add: Post_of_employee_get_eq answered_def get_all_employee_posts_def)
next
  show "snd (get_archived_posts st page :: (failure + 'r listed) \<times> listing_store) = st"
    by (simp add: get_archived_posts_def Let_def)
  show "snd (get_all_posts st who page statuses reverse
          :: (failure + 'r listed) \<times> listing_store) = st"
    by (simp add: get_all_posts_def Let_def)
  show "snd (get_all_employee_posts st employee_id :: (failure + 'r listed) \<times> listing_store) = st"
    by (simp add: get_all_employee_posts_def)
  show "length (posts_of_page (page_size st) page xs) \<le> page_size st"
    by (rule posts_of_page_length)
next
  assume "0 < page_size st"
  then show "concat (map (\<lambda>k. posts_of_page (page_size st) (int k + 1) xs)
                [0 ..< number_of_pages (page_size st) xs]) = xs"
    by (rule pages_partition)
qed


theorem listings_pagination_witness:
  "get_page example_env (example_request [(''page'', ''2'')]) = Inr 2 \<and>
   ArchivePost_get (with_listings example_listing_store example_env)
       (example_request [(''page'', ''2'')])
     = ([Get_archived_posts 2],
        Inr \<lparr>body = Returned (Page_of_posts [example_archived_post 2, example_archived_post 3] 3),
             code = 200, marshal_with = Some (counted_posts_list, False)\<rparr>) \<and>
   supplied (example_request [(''page'', ''1''), (''statuses'', ''archived,posted'')]) ''statuses''
     = {''archived'', ''posted''} \<and>
   PostModeration_get (with_listings example_listing_store example_env)
       (example_request [(''page'', ''1''), (''statuses'', ''archived,posted'')])
     = ([Get_all_posts ''e1'' 1 {archived, posted} True],
        Inr \<lparr>body = Returned (Page_of_posts [example_posted_post, example_archived_post 4] 3),
             code = 200, marshal_with = Some (counted_posts_list, False)\<rparr>) \<and>
   get_uuid example_env (Of_request (example_request [(''id'', ''e2'')])) = Inr ''e2'' \<and>
   Post_of_employee_get (with_listings example_listing_store example_env)
       (example_request [(''id'', ''e2'')])
     = ([Get_all_employee_posts ''e2''],
        Inr \<lparr>body = Returned (All_posts [example_posted_post]),
             code = 200, marshal_with = Some (full_post, True)\<rparr>)"
proof -
  let ?st = example_listing_store
  let ?archive = "example_request [(''page'', ''2'')]"
  let ?moderation = "example_request [(''page'', ''1''), (''statuses'', ''archived,posted'')]"
  let ?employee = "example_request [(''id'', ''e2'')]"
  have page2: "get_page example_env ?archive = Inr 2"
    by code_simp
  have archived_page:
    "posts_of_page (page_size ?st) 2 (filter (\<lambda>p. status p = archived) (posts ?st))
       = [example_archived_post 2, example_archived_post 3]"
    "number_of_pages (page_size ?st) (filter (\<lambda>p. status p = archived) (posts ?st)) = 3"
    by code_simp+
  from page2 listings_pagination [where env = example_env and req = ?archive and page = 2
      and st = ?st]
  have a: "ArchivePost_get (with_listings ?st example_env) ?archive
     = ([Get_archived_posts 2],
        Inr \<lparr>body = Returned (Page_of_posts [example_archived_post 2, example_archived_post 3] 3),
             code = 200, marshal_with = Some (counted_posts_list, False)\<rparr>)"
    by (simp add: Let_def archived_page)
  have supplied: "supplied ?moderation ''statuses'' = {''archived'', ''posted''}"
    by code_simp
  have names: "''archived'' = PostStatus_name archived" "''posted'' = PostStatus_name posted"
    by (simp_all add: PostStatus_name_def)
  have all_names: "\<forall>s\<in>supplied ?moderation ''statuses''. s \<noteq> [] \<longrightarrow> (\<exists>S. s = PostStatus_name S)"
    unfolding supplied using names by blast
  have statuses: "{S. PostStatus_name S \<in> supplied ?moderation ''statuses''} = {archived, posted}"
    unfolding supplied by (auto simp: PostStatus_name_eq PostStatus_getitem_def)
  have page1: "get_page example_env ?moderation = Inr 1"
    and who: "jwt_identity ?moderation = ''e1''"
    and privileged: "jwt_identity ?moderation \<in> set (privileged ?st)"
    and reverse: "(args_get ?moderation ''reverse'' ''true'' = ''true'') = True"
    by code_simp+
  have moderation_page:
    "posts_of_page (page_size ?st) 1
        (rev (filter (\<lambda>p. status p = archived \<or> status p = posted) (posts ?st)))
       = [example_posted_post, example_archived_post 4]"
    "number_of_pages (page_size ?st)
        (rev (filter (\<lambda>p. status p = archived \<or> status p = posted) (posts ?st))) = 3"
    by code_simp+
  from page1 privileged all_names
    listings_pagination [where env = example_env and req = ?moderation and page = 1
      and st = ?st]
  have m: "PostModeration_get (with_listings ?st example_env) ?moderation
     = ([Get_all_posts ''e1'' 1 {archived, posted} True],
        Inr \<lparr>body = Returned (Page_of_posts [example_posted_post, example_archived_post 4] 3),
             code = 200, marshal_with = Some (counted_posts_list, False)\<rparr>)"
    by (simp add: Let_def statuses who reverse moderation_page)
  have id: "get_uuid example_env (Of_request ?employee) = Inr ''e2''"
    and known: "''e2'' \<in> fst ` set (employee_subunit ?st)"
    and all_posts: "filter (\<lambda>p. author p = ''e2'') (posts ?st) = [example_posted_post]"
    by code_simp+
  from id known
    listings_pagination [where env = example_env and req = ?employee
      and employee_id = "''e2''" and st = ?st]
  have e: "Post_of_employee_get (with_listings ?st example_env) ?employee
     = ([Get_all_employee_posts ''e2''],
        Inr \<lparr>body = Returned (All_posts [example_posted_post]),
             code = 200, marshal_with = Some (full_post, True)\<rparr>)"
    by (simp add: all_posts)
  from page2 a supplied m id e show ?thesis by blast
qed


section \<open>Properties of the statistics handler\<close>

lemma minus_not_digit: "\<not> isdigit (CHR ''-'' # s) \<and> \<not> isdigit (s @ [CHR ''-'']) \<and> \<not> isdigit []"
  by (simp add: isdigit_def isdigit_char_def is_decimal_char_def)


lemma statistics_rejects_non_digits:
  "\<not> isdigit (args_get req ''start_year'' []) \<or> \<not> isdigit (args_get req ''start_month'' []) \<or>
   \<not> isdigit (args_get req ''end_year'' []) \<or> \<not> isdigit (args_get req ''end_month'' []) \<Longrightarrow>
   PostStat_get env req = ([], Inl (Abort 400 ''Date values must be integers''))"
  by (auto simp: PostStat_get_def Let_def)

lemma statistics_missing_date:
  "map_of (args req) ''start_year'' = None \<or> map_of (args req) ''start_month'' = None \<or>
   map_of (args req) ''end_year'' = None \<or> map_of (args req) ''end_month'' = None \<Longrightarrow>
   PostStat_get env req = ([], Inl (Abort 400 ''Date values must be integers''))"
  by (rule statistics_rejects_non_digits) (auto simp: args_get_def isdigit_def)

text \<open>
  The other end of the date check: a parameter that \<^verbatim>\<open>isdigit\<close> accepts and \<^verbatim>\<open>int\<close>
  refuses, a superscript digit or more than 4300 digits, ends the handler with the uncaught
  \<^verbatim>\<open>ValueError\<close> and no service call.
\<close>

lemma int_str_too_long: "4300 < length s \<Longrightarrow> int_str s = None"
  by (simp add: int_str_def)

lemma statistics_value_error:
  assumes "isdigit (args_get req ''start_year'' [])" "isdigit (args_get req ''start_month'' [])"
    "isdigit (args_get req ''end_year'' [])" "isdigit (args_get req ''end_month'' [])"
    and "subunit_ids env (query_param_to_set env ''ids'' req) = Inr ids"
    and "int_str (args_get req ''start_year'' []) = None \<or>
         int_str (args_get req ''start_month'' []) = None \<or>
         int_str (args_get req ''end_year'' []) = None \<or>
         int_str (args_get req ''end_month'' []) = None"
  shows "PostStat_get env req = ([], Inl (Uncaught ''ValueError''))"
  using assms unfolding PostStat_get_def Let_def
  by (auto split: option.splits)

text \<open>
  C10: every date parameter that is missing or that \<^verbatim>\<open>str.isdigit\<close> rejects (a minus
  sign among them) ends the handler with 400 "Date values must be integers" before the
  service is called (\<open>statistics_rejects_non_digits\<close>, \<open>statistics_missing_date\<close>).
  A superscript digit is not rejected: \<^verbatim>\<open>isdigit\<close> accepts it, \<^verbatim>\<open>int\<close> raises
  \<^verbatim>\<open>ValueError\<close> on it, and with \<^verbatim>\<open>start_year\<close> the superscript two the handler ends
  with that uncaught exception instead of 400, again before the service is called.
\<close>

theorem statistics_superscript_digit:
  "isdigit [CHR 0xB2] \<and> int_str [CHR 0xB2] = None \<and>
   PostStat_get example_env
     (example_request [(''start_year'', [CHR 0xB2]), (''start_month'', ''11''),
                       (''end_year'', ''2020''), (''end_month'', ''12'')])
     = ([], Inl (Uncaught ''ValueError''))"
  by code_simp

lemma split_commas_nonempty: "split_commas s \<noteq> []"
  by (induction s) (auto split: list.splits)

lemma query_param_to_set_nonempty: "query_param_to_set env name req \<noteq> []"
  using split_commas_nonempty [of "args_get req name []"] set_query_param_to_set [of env name req]
  by (metis set_empty)







end
